theory Spec2Isabelle
  imports Complex_Main "HOL-Library.Multiset"
begin

section \<open>Trajectory analysis of the well-profile backend\<close>

text \<open>
  The embedding follows \<open>analyze_trajectory\<close> in \<open>src/backend/main.py\<close> (lines 271-343).
  Python floats are read as real numbers. The one place where the handler can leave the
  numbers from finite inputs is \<open>np.arccos\<close>, which yields NaN outside \<open>[-1, 1]\<close>; a value
  that may be NaN is a \<open>real option\<close> with \<open>None\<close> for NaN. Rounding, overflow and
  infinities are not modelled.
\<close>

subsection \<open>Data model\<close>

text \<open>\<open>TrajectoryPoint\<close> (lines 34-40): four floats and two optional floats.\<close>

record point =
  md :: real
  tvd :: real
  inc :: real
  azi :: real
  north :: "real option"
  east :: "real option"

text \<open>The dictionary \<open>analysis\<close> returned by the handler (lines 290-299, 331-338).\<close>

record analysis =
  total_length :: real
  total_displacement :: real
  max_inclination :: real
  max_azimuth :: real
  vertical_section :: real
  closure_distance :: real
  closure_azimuth :: real
  point_count :: nat
  max_dls :: "real option"
  avg_dls :: "real option"

text \<open>
  Every exception raised in the body is caught by \<open>except Exception\<close> and re-raised as
  \<open>HTTPException(status_code=500)\<close> (lines 342-343).
\<close>

datatype error = HTTPException nat

subsection \<open>Library functions the handler calls\<close>

text \<open>\<open>point.north or 0\<close>: \<open>None\<close> and \<open>0.0\<close> both become \<open>0\<close> (lines 283-284).\<close>

definition or_0 :: "real option \<Rightarrow> real" where
  "or_0 v = (case v of None \<Rightarrow> 0 | Some x \<Rightarrow> (if x = 0 then 0 else x))"

text \<open>
  \<open>Series.max()\<close> of a column of numbers: a running maximum. The handler never reaches
  it with an empty column (see \<open>analyze_trajectory\<close> below).
\<close>

fun col_max :: "real list \<Rightarrow> real" where
  "col_max [] = 0"
| "col_max (x # xs) = fold max xs x"

definition np_radians :: "real \<Rightarrow> real" where
  "np_radians d = d * pi / 180"

definition np_degrees :: "real \<Rightarrow> real" where
  "np_degrees r = r * 180 / pi"

text \<open>
  \<open>np.arctan2(y, x)\<close>: the angle of the vector \<open>(x, y)\<close>, with \<open>arctan2(0, 0) = 0\<close>.
  Over the reals the angle \<open>-pi\<close> itself is not reached, while the rounded function does
  return it for \<open>x < 0\<close> and a tiny negative \<open>y\<close>; the bounds proved below are therefore
  stated as closed ones.
\<close>

definition np_arctan2 :: "real \<Rightarrow> real \<Rightarrow> real" where
  "np_arctan2 y x =
     (if 0 < x then arctan (y / x)
      else if x < 0 then (if 0 \<le> y then arctan (y / x) + pi else arctan (y / x) - pi)
      else if 0 < y then pi / 2
      else if y < 0 then - (pi / 2)
      else 0)"

text \<open>\<open>np.arccos\<close>: NaN (here \<open>None\<close>) outside \<open>[-1, 1]\<close>; it does not raise.\<close>

definition np_arccos :: "real \<Rightarrow> real option" where
  "np_arccos x = (if - 1 \<le> x \<and> x \<le> 1 then Some (arccos x) else None)"

text \<open>
  Python's builtin \<open>max\<close> on a non-empty list of floats: the first element is kept until
  a later one compares greater; a comparison with NaN is false.
\<close>

definition py_gt :: "real option \<Rightarrow> real option \<Rightarrow> bool" where
  "py_gt a b = (case a of None \<Rightarrow> False
                | Some x \<Rightarrow> (case b of None \<Rightarrow> False | Some y \<Rightarrow> y < x))"

fun py_max :: "real option list \<Rightarrow> real option" where
  "py_max [] = None"
| "py_max (x # xs) = fold (\<lambda>y m. if py_gt y m then y else m) xs x"

text \<open>Sum of floats: NaN as soon as one summand is NaN.\<close>

fun nan_sum :: "real option list \<Rightarrow> real option" where
  "nan_sum [] = Some 0"
| "nan_sum (x # xs) =
     (case x of None \<Rightarrow> None
      | Some a \<Rightarrow> (case nan_sum xs of None \<Rightarrow> None | Some s \<Rightarrow> Some (a + s)))"

definition np_mean :: "real option list \<Rightarrow> real option" where
  "np_mean xs = (case nan_sum xs of None \<Rightarrow> None | Some s \<Rightarrow> Some (s / real (length xs)))"

subsection \<open>The dogleg loop (lines 302-328)\<close>

text \<open>Lines 312-318: the azimuth difference and its two wrap-around tests, in order.\<close>

definition wrap_azi :: "real \<Rightarrow> real" where
  "wrap_azi d =
     (let d1 = (if 180 < d then d - 360 else d)
      in if d1 < - 180 then d1 + 360 else d1)"

definition delta_azi :: "point \<Rightarrow> point \<Rightarrow> real" where
  "delta_azi prev cur = wrap_azi (azi cur - azi prev)"

text \<open>Lines 321-324: the argument handed to \<open>np.arccos\<close>.\<close>

definition dogleg_arg :: "point \<Rightarrow> point \<Rightarrow> real" where
  "dogleg_arg prev cur =
     cos (np_radians (inc cur - inc prev)) +
     sin (np_radians (inc prev)) * sin (np_radians (inc cur)) *
     (1 - cos (np_radians (delta_azi prev cur)))"

text \<open>Lines 320-325: the variable \<open>dls\<close>, the dogleg angle in degrees.\<close>

definition dogleg_deg :: "point \<Rightarrow> point \<Rightarrow> real option" where
  "dogleg_deg prev cur = map_option (\<lambda>a. a * 180 / pi) (np_arccos (dogleg_arg prev cur))"

text \<open>Line 327: \<open>dls_per_100ft\<close>.\<close>

definition dls_per_100ft :: "point \<Rightarrow> point \<Rightarrow> real option" where
  "dls_per_100ft prev cur =
     map_option (\<lambda>d. (d / (md cur - md prev)) * 100) (dogleg_deg prev cur)"

text \<open>
  Lines 303-328: the loop over \<open>i = 1 .. len(df) - 1\<close> with \<open>prev = df.iloc[i-1]\<close> and
  \<open>cur\<close> the row \<open>df.iloc[i]\<close>, appending to \<open>dls_values\<close> when \<open>delta_md > 0\<close>.
\<close>

fun dls_values :: "point list \<Rightarrow> real option list" where
  "dls_values (prev # cur # rest) =
     (if 0 < md cur - md prev then [dls_per_100ft prev cur] else []) @
     dls_values (cur # rest)"
| "dls_values [p] = []"
| "dls_values [] = []"

subsection \<open>The handler\<close>

text \<open>
  Lines 276-287: the data frame has the columns \<open>md, tvd, inc, azi, north, east\<close> and
  never a column \<open>dls\<close>. From an empty list of points \<open>pd.DataFrame([])\<close> has no columns
  at all, so \<open>df['md']\<close> on line 291 raises \<open>KeyError\<close>, which line 343 turns into the
  HTTP error.
\<close>

definition analyze_trajectory :: "point list \<Rightarrow> error + analysis" where
  "analyze_trajectory ps =
     (if ps = [] then Inl (HTTPException 500)
      else
        let north_col = map (\<lambda>p. or_0 (north p)) ps;
            east_col = map (\<lambda>p. or_0 (east p)) ps;
            dls = (if 1 < length ps
                   then (let vs = dls_values ps
                         in if vs \<noteq> [] then (py_max vs, np_mean vs) else (Some 0, Some 0))
                   else (Some 0, Some 0))
        in Inr \<lparr> total_length = col_max (map md ps),
                 total_displacement = sqrt ((col_max north_col)\<^sup>2 + (col_max east_col)\<^sup>2),
                 max_inclination = col_max (map inc ps),
                 max_azimuth = col_max (map azi ps),
                 vertical_section = col_max (map tvd ps),
                 closure_distance = sqrt ((last north_col)\<^sup>2 + (last east_col)\<^sup>2),
                 closure_azimuth = np_degrees (np_arctan2 (last east_col) (last north_col)),
                 point_count = length ps,
                 max_dls = fst dls,
                 avg_dls = snd dls \<rparr>)"

subsection \<open>The reading of \<open>total_displacement\<close> in the specification\<close>

text \<open>
  The specification describes \<open>total_displacement\<close> as the norm of the north and east
  offsets of the row with the largest \<open>md\<close>. These two definitions follow that wording,
  for comparison with the handler.
\<close>

definition max_md_row :: "point list \<Rightarrow> point" where
  "max_md_row ps = hd (filter (\<lambda>p. md p = col_max (map md ps)) ps)"

definition spec_total_displacement :: "point list \<Rightarrow> real" where
  "spec_total_displacement ps =
     sqrt ((or_0 (north (max_md_row ps)))\<^sup>2 + (or_0 (east (max_md_row ps)))\<^sup>2)"

section \<open>Properties\<close>

subsection \<open>Auxiliary facts\<close>

lemma col_max_Max:
  assumes "xs \<noteq> []"
  shows "col_max xs = Max (set xs)"
proof (cases xs)
  case Nil
  then show ?thesis using assms by simp
next
  case (Cons y ys)
  show ?thesis unfolding Cons using Max.set_eq_fold [of y ys] by simp
qed

lemma dls_values_map_filter:
  "dls_values ps =
     map (\<lambda>(p, c). dls_per_100ft p c) (filter (\<lambda>(p, c). 0 < md c - md p) (zip ps (tl ps)))"
  by (induction ps rule: dls_values.induct) simp_all

lemma py_max_fold_Some:
  "fold (\<lambda>y m. if py_gt y m then y else m) (map Some xs) (Some x) = Some (fold max xs x)"
proof (induction xs arbitrary: x)
  case Nil
  show ?case by simp
next
  case (Cons y ys)
  have "(if py_gt (Some y) (Some x) then Some y else Some x) = Some (max y x)"
    by (simp add: py_gt_def max_def)
  then show ?case using Cons.IH [of "max y x"] by simp
qed

lemma py_max_Some:
  assumes "vs \<noteq> []"
  shows "py_max (map Some vs) = Some (Max (set vs))"
proof (cases vs)
  case Nil
  then show ?thesis using assms by simp
next
  case (Cons y ys)
  show ?thesis unfolding Cons using Max.set_eq_fold [of y ys] by (simp add: py_max_fold_Some)
qed

lemma nan_sum_Some: "nan_sum (map Some vs) = Some (sum_list vs)"
  by (induction vs) simp_all

lemma np_mean_Some: "np_mean (map Some vs) = Some (sum_list vs / real (length vs))"
  by (simp add: np_mean_def nan_sum_Some)

lemma py_max_fold_None: "fold (\<lambda>y m. if py_gt y m then y else m) xs None = None"
  by (induction xs) (simp_all add: py_gt_def split: option.splits)

lemma finite_numbers: "finite {u. Some u \<in> set xs}"
proof -
  have "{u. Some u \<in> set xs} \<subseteq> the ` set xs" by force
  then show ?thesis by (rule finite_subset) simp
qed

lemma py_max_fold_num:
  "fold (\<lambda>y m. if py_gt y m then y else m) xs (Some v) =
     Some (Max (insert v {u. Some u \<in> set xs}))"
proof (induction xs arbitrary: v)
  case Nil
  show ?case by simp
next
  case (Cons y ys)
  let ?S = "{u. Some u \<in> set ys}"
  have fin: "finite ?S" by (rule finite_numbers)
  show ?case
  proof (cases y)
    case None
    have "{u. Some u \<in> set (y # ys)} = ?S" using None by auto
    then show ?thesis using None Cons.IH [of v] by (simp add: py_gt_def)
  next
    case (Some w)
    have s: "{u. Some u \<in> set (y # ys)} = insert w ?S" using Some by auto
    have step: "(if py_gt y (Some v) then y else Some v) = Some (max w v)"
      using Some by (simp add: py_gt_def max_def)
    have "Max (insert (max w v) ?S) = Max (insert v (insert w ?S))"
    proof (cases "?S = {}")
      case True
      then show ?thesis by (simp add: max.commute)
    next
      case False
      then show ?thesis using fin by (simp add: max.assoc max.commute max.left_commute)
    qed
    then show ?thesis using step s Cons.IH [of "max w v"] by simp
  qed
qed

lemma py_max_first_num:
  "py_max (Some v # xs) = Some (Max {u. Some u \<in> set (Some v # xs)})"
proof -
  have "{u. Some u \<in> set (Some v # xs)} = insert v {u. Some u \<in> set xs}" by auto
  then show ?thesis by (simp add: py_max_fold_num)
qed

lemma nan_sum_None: "None \<in> set xs \<Longrightarrow> nan_sum xs = None"
  by (induction xs) (auto split: option.splits)

lemma np_mean_None: "None \<in> set xs \<Longrightarrow> np_mean xs = None"
  by (simp add: np_mean_def nan_sum_None)

lemma np_arctan2_range: "- pi \<le> np_arctan2 y x \<and> np_arctan2 y x \<le> pi"
proof -
  have lb: "- (pi / 2) < arctan (y / x)" and ub: "arctan (y / x) < pi / 2"
    by (rule arctan_lbound, rule arctan_ubound)
  have "x < 0 \<Longrightarrow> 0 \<le> y \<Longrightarrow> arctan (y / x) \<le> 0"
    by (simp add: divide_nonneg_neg)
  moreover have "x < 0 \<Longrightarrow> y < 0 \<Longrightarrow> 0 < arctan (y / x)"
    by (simp add: divide_neg_neg)
  ultimately show ?thesis
    using lb ub pi_gt_zero unfolding np_arctan2_def by (auto simp: field_simps)
qed

lemma np_arctan2_sign:
  "(y < 0 \<longrightarrow> np_arctan2 y x \<le> 0) \<and> (0 \<le> y \<longrightarrow> 0 \<le> np_arctan2 y x)"
proof -
  have lb: "- (pi / 2) < arctan (y / x)" and ub: "arctan (y / x) < pi / 2"
    by (rule arctan_lbound, rule arctan_ubound)
  have a: "0 < x \<Longrightarrow> y < 0 \<Longrightarrow> arctan (y / x) \<le> 0"
    by (simp add: divide_nonpos_pos)
  have b: "0 < x \<Longrightarrow> 0 \<le> y \<Longrightarrow> 0 \<le> arctan (y / x)"
    by simp
  show ?thesis
    using lb ub a b pi_gt_zero unfolding np_arctan2_def by (auto simp: field_simps)
qed

text \<open>
  The case distinction of \<open>np_arctan2\<close> is the polar angle: away from the origin the
  vector \<open>(x, y)\<close> is its length times \<open>(cos, sin)\<close> of that angle.
\<close>

lemma np_arctan2_polar:
  assumes "x \<noteq> 0 \<or> y \<noteq> 0"
  shows "sqrt (x\<^sup>2 + y\<^sup>2) * cos (np_arctan2 y x) = x \<and>
         sqrt (x\<^sup>2 + y\<^sup>2) * sin (np_arctan2 y x) = y"
proof -
  have pos: "sqrt (x\<^sup>2 + y\<^sup>2) = \<bar>x\<bar> * sqrt (1 + (y / x)\<^sup>2)" if "x \<noteq> 0"
  proof -
    have "x\<^sup>2 + y\<^sup>2 = x\<^sup>2 * (1 + (y / x)\<^sup>2)"
      using that by (simp add: field_simps power2_eq_square)
    then show ?thesis by (simp add: real_sqrt_mult)
  qed
  have nz: "sqrt (1 + (y / x)\<^sup>2) \<noteq> 0"
    by (metis add_nonneg_eq_0_iff real_sqrt_eq_zero_cancel_iff zero_le_one zero_le_power2 zero_neq_one)
  consider "0 < x" | "x < 0" "0 \<le> y" | "x < 0" "y < 0" | "x = 0" "0 < y" | "x = 0" "y < 0"
    using assms by fastforce
  then show ?thesis
  proof cases
    case 1
    then show ?thesis using pos nz
      by (simp add: np_arctan2_def cos_arctan sin_arctan field_simps)
  next
    case 2
    then show ?thesis using pos nz
      by (simp add: np_arctan2_def cos_arctan sin_arctan field_simps)
  next
    case 3
    then show ?thesis using pos nz
      by (simp add: np_arctan2_def cos_arctan sin_arctan cos_diff sin_diff field_simps)
  next
    case 4
    then show ?thesis by (simp add: np_arctan2_def)
  next
    case 5
    then show ?thesis by (simp add: np_arctan2_def)
  qed
qed

lemma trig_90_180:
  "sin (np_radians 90) = 1" "cos (np_radians 180) = - 1" "cos (np_radians 0) = 1"
  by (simp_all add: np_radians_def)

lemma arg_3:
  "dogleg_arg \<lparr>md = 0, tvd = 0, inc = 90, azi = 0, north = None, east = None\<rparr>
              \<lparr>md = 100, tvd = 0, inc = 90, azi = 180, north = None, east = None\<rparr> = 3"
  by (simp add: dogleg_arg_def delta_azi_def wrap_azi_def trig_90_180)

lemma dls_values_empty:
  "length ps < 2 \<or> (\<forall>i. 0 < i \<and> i < length ps \<longrightarrow> md (ps ! i) - md (ps ! (i - 1)) \<le> 0)
   \<Longrightarrow> dls_values ps = []"
proof (induction ps rule: dls_values.induct)
  case (1 prev cur rest)
  then have all: "\<forall>i. 0 < i \<and> i < length (prev # cur # rest) \<longrightarrow>
      md ((prev # cur # rest) ! i) - md ((prev # cur # rest) ! (i - 1)) \<le> 0" by simp
  from all [rule_format, of 1] have skip: "\<not> 0 < md cur - md prev" by simp
  have "\<forall>i. 0 < i \<and> i < length (cur # rest) \<longrightarrow>
      md ((cur # rest) ! i) - md ((cur # rest) ! (i - 1)) \<le> 0"
  proof (intro allI impI)
    fix i assume i: "0 < i \<and> i < length (cur # rest)"
    then have "md ((prev # cur # rest) ! Suc i) - md ((prev # cur # rest) ! (Suc i - 1)) \<le> 0"
      using all [rule_format, of "Suc i"] by simp
    then show "md ((cur # rest) ! i) - md ((cur # rest) ! (i - 1)) \<le> 0"
      using i by (cases i) simp_all
  qed
  then have "dls_values (cur # rest) = []" using "1.IH" by blast
  then show ?case using skip by simp
qed simp_all

lemma arg_same: "inc c = inc p \<Longrightarrow> azi c = azi p \<Longrightarrow> dogleg_arg p c = 1"
  by (simp add: dogleg_arg_def delta_azi_def wrap_azi_def np_radians_def)

lemma arg_opposite:
  "inc p = 90 \<Longrightarrow> inc c = 90 \<Longrightarrow> azi c - azi p = 180 \<Longrightarrow> dogleg_arg p c = 3"
  by (simp add: dogleg_arg_def delta_azi_def wrap_azi_def trig_90_180)

lemma dls_same: "inc c = inc p \<Longrightarrow> azi c = azi p \<Longrightarrow> dls_per_100ft p c = Some 0"
  by (simp add: dls_per_100ft_def dogleg_deg_def np_arccos_def arg_same)

lemma dls_opposite:
  "inc p = 90 \<Longrightarrow> inc c = 90 \<Longrightarrow> azi c - azi p = 180 \<Longrightarrow> dls_per_100ft p c = None"
  by (simp add: dls_per_100ft_def dogleg_deg_def np_arccos_def arg_opposite)

lemma series_nan_first:
  "dls_values [\<lparr>md = 0, tvd = 0, inc = 90, azi = 0, north = None, east = None\<rparr>,
               \<lparr>md = 100, tvd = 0, inc = 90, azi = 180, north = None, east = None\<rparr>,
               \<lparr>md = 200, tvd = 0, inc = 90, azi = 180, north = None, east = None\<rparr>] =
     [None, Some 0]"
  by (simp add: dls_same dls_opposite)

lemma series_nan_last:
  "dls_values [\<lparr>md = 0, tvd = 0, inc = 90, azi = 0, north = None, east = None\<rparr>,
               \<lparr>md = 100, tvd = 0, inc = 90, azi = 0, north = None, east = None\<rparr>,
               \<lparr>md = 200, tvd = 0, inc = 90, azi = 180, north = None, east = None\<rparr>] =
     [Some 0, None]"
  by (simp add: dls_same dls_opposite)

lemma analyze_dls_fields:
  "ps \<noteq> [] \<Longrightarrow>
   \<exists>a. analyze_trajectory ps = Inr a \<and>
       (dls_values ps \<noteq> [] \<longrightarrow>
          max_dls a = py_max (dls_values ps) \<and> avg_dls a = np_mean (dls_values ps)) \<and>
       (dls_values ps = [] \<longrightarrow> max_dls a = Some 0 \<and> avg_dls a = Some 0)"
proof -
  assume ne: "ps \<noteq> []"
  have short: "dls_values ps = []" if "\<not> 1 < length ps"
    using that dls_values_empty [of ps] by simp
  show ?thesis
    using ne short
    by (auto simp add: analyze_trajectory_def Let_def simp del: dls_values.simps)
qed

subsection \<open>The dogleg-severity series\<close>

text \<open>
  Claim C5. The series built by the loop holds, for every adjacent pair \<open>(p, c)\<close> in
  sequence order whose \<open>delta_md = md c - md p\<close> is positive, the severity
  \<open>(dogleg_deg / delta_md) * 100\<close>, where \<open>dogleg_deg\<close> is
  \<open>degrees (arccos (cos (radians delta_inc) + sin (radians (inc p)) * sin (radians (inc c)) *
  (1 - cos (radians delta_azi))))\<close> with \<open>delta_inc = inc c - inc p\<close>; a NaN of the
  arc cosine stays a NaN in the entry.
\<close>

theorem dls_values_formula:
  "dls_values ps =
     map (\<lambda>(p, c).
            map_option (\<lambda>dogleg. (dogleg / (md c - md p)) * 100)
              (map_option np_degrees
                 (np_arccos (cos (np_radians (inc c - inc p)) +
                             sin (np_radians (inc p)) * sin (np_radians (inc c)) *
                             (1 - cos (np_radians (delta_azi p c)))))))
         (filter (\<lambda>(p, c). 0 < md c - md p) (zip ps (tl ps)))"
proof -
  have "dls_per_100ft p c =
          map_option (\<lambda>dogleg. (dogleg / (md c - md p)) * 100)
            (map_option np_degrees
               (np_arccos (cos (np_radians (inc c - inc p)) +
                           sin (np_radians (inc p)) * sin (np_radians (inc c)) *
                           (1 - cos (np_radians (delta_azi p c))))))" for p c
    by (simp add: dls_per_100ft_def dogleg_deg_def dogleg_arg_def np_degrees_def cong: option.map_cong)
  then show ?thesis by (simp add: dls_values_map_filter)
qed

text \<open>
  Claim C7. For a sequence of \<open>n\<close> points the series has at most \<open>n - 1\<close> entries, it
  has one entry for each adjacent pair with \<open>delta_md > 0\<close> and none for the others, and
  so exactly \<open>n - 1\<close> entries when every \<open>delta_md\<close> is positive.
\<close>

theorem dls_series_length:
  "length (dls_values ps) \<le> length ps - 1 \<and>
   length (dls_values ps) = length (filter (\<lambda>(p, c). 0 < md c - md p) (zip ps (tl ps))) \<and>
   ((\<forall>i. 0 < i \<and> i < length ps \<longrightarrow> 0 < md (ps ! i) - md (ps ! (i - 1))) \<longrightarrow>
      length (dls_values ps) = length ps - 1)"
proof -
  let ?keep = "\<lambda>(p, c). 0 < md c - md p"
  have len: "length (dls_values ps) = length (filter ?keep (zip ps (tl ps)))"
    by (simp add: dls_values_map_filter)
  have zl: "length (zip ps (tl ps)) = length ps - 1"
    by simp
  have le: "length (dls_values ps) \<le> length ps - 1"
    unfolding len using length_filter_le [of ?keep "zip ps (tl ps)"] zl by simp
  have all: "length (dls_values ps) = length ps - 1"
    if h: "\<forall>i. 0 < i \<and> i < length ps \<longrightarrow> 0 < md (ps ! i) - md (ps ! (i - 1))"
  proof -
    have "\<forall>x \<in> set (zip ps (tl ps)). ?keep x"
    proof
      fix x assume "x \<in> set (zip ps (tl ps))"
      then obtain j where j: "j < length (zip ps (tl ps))" and x: "x = zip ps (tl ps) ! j"
        by (auto simp: in_set_conv_nth)
      from j have j1: "Suc j < length ps" by simp
      then have "x = (ps ! j, ps ! Suc j)" using x j by (simp add: nth_tl)
      moreover have "0 < md (ps ! Suc j) - md (ps ! j)" using h j1 by force
      ultimately show "?keep x" by simp
    qed
    then have "filter ?keep (zip ps (tl ps)) = zip ps (tl ps)" by (simp add: filter_id_conv)
    then show ?thesis using len zl by simp
  qed
  show ?thesis using len le all by blast
qed

theorem dls_series_length_witness:
  "length (dls_values
            [\<lparr>md = 0, tvd = 0, inc = 0, azi = 0, north = Some 0, east = Some 0\<rparr>,
             \<lparr>md = 100, tvd = 99, inc = 5, azi = 10, north = Some 1, east = Some 2\<rparr>]) = 1 \<and>
   length (dls_values
            [\<lparr>md = 100, tvd = 0, inc = 0, azi = 0, north = None, east = None\<rparr>,
             \<lparr>md = 100, tvd = 99, inc = 5, azi = 10, north = None, east = None\<rparr>]) = 0"
proof -
  let ?ps = "[\<lparr>md = 0, tvd = 0, inc = 0, azi = 0, north = Some 0, east = Some 0\<rparr>,
             \<lparr>md = 100, tvd = 99, inc = 5, azi = 10, north = Some 1, east = Some 2\<rparr>]"
  let ?qs = "[\<lparr>md = 100, tvd = 0, inc = 0, azi = 0, north = None, east = None\<rparr>,
             \<lparr>md = 100, tvd = 99, inc = 5, azi = 10, north = None, east = None\<rparr>]"
  have h: "\<forall>i. 0 < i \<and> i < length ?ps \<longrightarrow> 0 < md (?ps ! i) - md (?ps ! (i - 1))"
    by (auto simp: less_Suc_eq)
  have "length (dls_values ?ps) = 1"
    using dls_series_length [of ?ps] h by simp
  moreover have "length (dls_values ?qs) = 0"
    using dls_series_length [of ?qs] by simp
  ultimately show ?thesis by simp
qed

subsection \<open>The end-to-end example\<close>

lemma deg5: "np_arccos (cos (np_radians 5)) = Some (5 * pi / 180)"
proof -
  have "0 \<le> 5 * pi / 180" "5 * pi / 180 \<le> pi" using pi_gt_zero by auto
  then have "arccos (cos (5 * pi / 180)) = 5 * pi / 180" by (rule arccos_cos)
  then show ?thesis by (simp add: np_arccos_def np_radians_def)
qed

lemma ex_series:
  "dls_values [\<lparr>md = 0, tvd = 0, inc = 0, azi = 0, north = Some 0, east = Some 0\<rparr>,
               \<lparr>md = 100, tvd = 99, inc = 5, azi = 10, north = Some 1, east = Some 2\<rparr>] = [Some 5]"
proof -
  let ?p = "\<lparr>md = 0, tvd = 0, inc = 0, azi = 0, north = Some 0, east = Some 0\<rparr>"
  let ?c = "\<lparr>md = 100, tvd = 99, inc = 5, azi = 10, north = Some 1, east = Some 2\<rparr>"
  have "sin (np_radians 0) = 0" by (simp add: np_radians_def)
  then have "dogleg_arg ?p ?c = cos (np_radians 5)" by (simp add: dogleg_arg_def)
  then have "dogleg_deg ?p ?c = Some 5" using deg5 by (simp add: dogleg_deg_def)
  then show ?thesis by (simp add: dls_per_100ft_def)
qed

text \<open>
  Claim C9. On the two points \<open>(md 0, tvd 0, inc 0, azi 0, north 0, east 0)\<close> and
  \<open>(md 100, tvd 99, inc 5, azi 10, north 1, east 2)\<close> the handler returns
  \<open>point_count = 2\<close>, \<open>total_length = 100\<close>, \<open>vertical_section = 99\<close>; the series has
  exactly one entry, and \<open>max_dls\<close> and \<open>avg_dls\<close> both equal it (the entry is 5).
\<close>

theorem end_to_end_example:
  "\<exists>a e. analyze_trajectory
            [\<lparr>md = 0, tvd = 0, inc = 0, azi = 0, north = Some 0, east = Some 0\<rparr>,
             \<lparr>md = 100, tvd = 99, inc = 5, azi = 10, north = Some 1, east = Some 2\<rparr>] = Inr a \<and>
          point_count a = 2 \<and> total_length a = 100 \<and> vertical_section a = 99 \<and>
          dls_values
            [\<lparr>md = 0, tvd = 0, inc = 0, azi = 0, north = Some 0, east = Some 0\<rparr>,
             \<lparr>md = 100, tvd = 99, inc = 5, azi = 10, north = Some 1, east = Some 2\<rparr>] = [e] \<and>
          max_dls a = e \<and> avg_dls a = e \<and> e = Some 5"
  by (simp add: analyze_trajectory_def ex_series np_mean_def del: dls_values.simps)

subsection \<open>Statistics of the series\<close>

text \<open>
  Claim C8 (amended). For every non-empty sequence of points: when the series is a non-empty
  list of numbers, \<open>max_dls\<close> is its maximum and \<open>avg_dls\<close> its arithmetic mean; when the
  series holds a NaN, \<open>avg_dls\<close> is NaN, and \<open>max_dls\<close> is NaN if the first entry is NaN
  and otherwise the maximum of the entries that are numbers; when the series is empty both
  are 0. The series is empty for a single point and when every interval is skipped, as for
  two points with the same \<open>md\<close>.
\<close>

theorem dls_statistics:
  "ps \<noteq> [] \<Longrightarrow>
   \<exists>a. analyze_trajectory ps = Inr a \<and>
       (\<forall>vs. vs \<noteq> [] \<and> dls_values ps = map Some vs \<longrightarrow>
          max_dls a = Some (Max (set vs)) \<and> avg_dls a = Some (sum_list vs / real (length vs))) \<and>
       (None \<in> set (dls_values ps) \<longrightarrow> avg_dls a = None) \<and>
       (\<forall>xs. dls_values ps = None # xs \<longrightarrow> max_dls a = None) \<and>
       (\<forall>v xs. dls_values ps = Some v # xs \<longrightarrow>
          max_dls a = Some (Max {u. Some u \<in> set (dls_values ps)})) \<and>
       (dls_values ps = [] \<longrightarrow> max_dls a = Some 0 \<and> avg_dls a = Some 0) \<and>
       (length ps < 2 \<or>
        (\<forall>i. 0 < i \<and> i < length ps \<longrightarrow> md (ps ! i) - md (ps ! (i - 1)) \<le> 0) \<longrightarrow>
          dls_values ps = [])"
proof -
  assume ne: "ps \<noteq> []"
  from analyze_dls_fields [OF ne] obtain a where
    a: "analyze_trajectory ps = Inr a"
    and full: "dls_values ps \<noteq> [] \<longrightarrow>
          max_dls a = py_max (dls_values ps) \<and> avg_dls a = np_mean (dls_values ps)"
    and none: "dls_values ps = [] \<longrightarrow> max_dls a = Some 0 \<and> avg_dls a = Some 0"
    by blast
  have nums: "max_dls a = Some (Max (set vs)) \<and> avg_dls a = Some (sum_list vs / real (length vs))"
    if "vs \<noteq> [] \<and> dls_values ps = map Some vs" for vs
    using that full by (simp add: py_max_Some np_mean_Some)
  have nan_avg: "avg_dls a = None" if "None \<in> set (dls_values ps)"
  proof -
    from that have "dls_values ps \<noteq> []" by auto
    then show ?thesis using full that by (simp add: np_mean_None)
  qed
  have nan_first: "max_dls a = None" if "dls_values ps = None # xs" for xs
    using that full by (simp add: py_max_fold_None)
  have num_first: "max_dls a = Some (Max {u. Some u \<in> set (dls_values ps)})"
    if "dls_values ps = Some v # xs" for v xs
    using that full py_max_first_num [of v xs] by simp
  have e: "length ps < 2 \<or>
        (\<forall>i. 0 < i \<and> i < length ps \<longrightarrow> md (ps ! i) - md (ps ! (i - 1)) \<le> 0) \<longrightarrow>
          dls_values ps = []"
    using dls_values_empty [of ps] by blast
  show ?thesis using a nums nan_avg nan_first num_first none e by blast
qed

theorem dls_statistics_witness:
  "(\<exists>a. analyze_trajectory
          [\<lparr>md = 0, tvd = 0, inc = 0, azi = 0, north = Some 0, east = Some 0\<rparr>,
           \<lparr>md = 100, tvd = 99, inc = 5, azi = 10, north = Some 1, east = Some 2\<rparr>] = Inr a \<and>
        max_dls a = Some 5 \<and> avg_dls a = Some 5) \<and>
   (\<exists>a. analyze_trajectory
          [\<lparr>md = 100, tvd = 0, inc = 0, azi = 0, north = Some 0, east = Some 0\<rparr>,
           \<lparr>md = 100, tvd = 99, inc = 5, azi = 10, north = Some 1, east = Some 2\<rparr>] = Inr a \<and>
        max_dls a = Some 0 \<and> avg_dls a = Some 0) \<and>
   (\<exists>a. analyze_trajectory
          [\<lparr>md = 0, tvd = 0, inc = 90, azi = 0, north = None, east = None\<rparr>,
           \<lparr>md = 100, tvd = 0, inc = 90, azi = 180, north = None, east = None\<rparr>,
           \<lparr>md = 200, tvd = 0, inc = 90, azi = 180, north = None, east = None\<rparr>] = Inr a \<and>
        max_dls a = None \<and> avg_dls a = None) \<and>
   (\<exists>a. analyze_trajectory
          [\<lparr>md = 0, tvd = 0, inc = 90, azi = 0, north = None, east = None\<rparr>,
           \<lparr>md = 100, tvd = 0, inc = 90, azi = 0, north = None, east = None\<rparr>,
           \<lparr>md = 200, tvd = 0, inc = 90, azi = 180, north = None, east = None\<rparr>] = Inr a \<and>
        max_dls a = Some 0 \<and> avg_dls a = None)"
proof -
  let ?ps = "[\<lparr>md = 0, tvd = 0, inc = 0, azi = 0, north = Some 0, east = Some 0\<rparr>,
           \<lparr>md = 100, tvd = 99, inc = 5, azi = 10, north = Some 1, east = Some 2\<rparr>]"
  let ?qs = "[\<lparr>md = 100, tvd = 0, inc = 0, azi = 0, north = Some 0, east = Some 0\<rparr>,
           \<lparr>md = 100, tvd = 99, inc = 5, azi = 10, north = Some (1::real), east = Some (2::real)\<rparr>]"
  let ?rs = "[\<lparr>md = 0, tvd = 0, inc = 90, azi = 0, north = None, east = None\<rparr>,
           \<lparr>md = 100, tvd = 0, inc = 90, azi = 180, north = None, east = None\<rparr>,
           \<lparr>md = 200, tvd = 0, inc = 90, azi = 180, north = None, east = None\<rparr>]"
  let ?ts = "[\<lparr>md = 0, tvd = 0, inc = 90, azi = 0, north = None, east = None\<rparr>,
           \<lparr>md = 100, tvd = 0, inc = 90, azi = 0, north = None, east = None\<rparr>,
           \<lparr>md = 200, tvd = 0, inc = 90, azi = 180, north = None, east = None\<rparr>]"
  have hp: "?ps \<noteq> []" and hq: "?qs \<noteq> []" and hr: "?rs \<noteq> []" and ht: "?ts \<noteq> []"
    by simp_all
  have vs: "[5::real] \<noteq> [] \<and> dls_values ?ps = map Some [5]" using ex_series by simp
  from dls_statistics [OF hp] obtain a where
    a: "analyze_trajectory ?ps = Inr a"
    and am: "\<forall>vs. vs \<noteq> [] \<and> dls_values ?ps = map Some vs \<longrightarrow>
          max_dls a = Some (Max (set vs)) \<and> avg_dls a = Some (sum_list vs / real (length vs))"
    by blast
  from am [rule_format, OF vs] have "max_dls a = Some 5 \<and> avg_dls a = Some 5" by simp
  with a have first: "\<exists>a. analyze_trajectory ?ps = Inr a \<and> max_dls a = Some 5 \<and> avg_dls a = Some 5"
    by blast
  have skipped: "\<forall>i. 0 < i \<and> i < length ?qs \<longrightarrow> md (?qs ! i) - md (?qs ! (i - 1)) \<le> 0"
    by (auto simp: less_Suc_eq)
  from dls_statistics [OF hq] obtain b where
    b: "analyze_trajectory ?qs = Inr b"
    and b0: "dls_values ?qs = [] \<longrightarrow> max_dls b = Some 0 \<and> avg_dls b = Some 0"
    and be: "length ?qs < 2 \<or>
        (\<forall>i. 0 < i \<and> i < length ?qs \<longrightarrow> md (?qs ! i) - md (?qs ! (i - 1)) \<le> 0) \<longrightarrow>
          dls_values ?qs = []"
    by blast
  from be skipped have "dls_values ?qs = []" by blast
  with b0 b have second: "\<exists>a. analyze_trajectory ?qs = Inr a \<and> max_dls a = Some 0 \<and> avg_dls a = Some 0"
    by blast
  from dls_statistics [OF hr] obtain c where
    c: "analyze_trajectory ?rs = Inr c"
    and cavg: "None \<in> set (dls_values ?rs) \<longrightarrow> avg_dls c = None"
    and cmax: "\<forall>xs. dls_values ?rs = None # xs \<longrightarrow> max_dls c = None"
    by blast
  have "None \<in> set (dls_values ?rs)" "dls_values ?rs = None # [Some 0]"
    unfolding series_nan_first by simp_all
  with cavg cmax have "max_dls c = None \<and> avg_dls c = None" by blast
  with c have third: "\<exists>a. analyze_trajectory ?rs = Inr a \<and> max_dls a = None \<and> avg_dls a = None"
    by blast
  from dls_statistics [OF ht] obtain d where
    d: "analyze_trajectory ?ts = Inr d"
    and davg: "None \<in> set (dls_values ?ts) \<longrightarrow> avg_dls d = None"
    and dmax: "\<forall>v xs. dls_values ?ts = Some v # xs \<longrightarrow>
          max_dls d = Some (Max {u. Some u \<in> set (dls_values ?ts)})"
    by blast
  have tn: "None \<in> set (dls_values ?ts)" and tf: "dls_values ?ts = Some 0 # [None]"
    unfolding series_nan_last by simp_all
  have set0: "{u::real. Some u \<in> set (dls_values ?ts)} = {0}"
    unfolding series_nan_last by auto
  have "max_dls d = Some (Max {u. Some u \<in> set (dls_values ?ts)})"
    using dmax tf by blast
  then have dm: "max_dls d = Some 0" unfolding set0 by simp
  have "avg_dls d = None" using davg tn by blast
  with dm have "max_dls d = Some 0 \<and> avg_dls d = None" by blast
  with d have fourth: "\<exists>a. analyze_trajectory ?ts = Inr a \<and> max_dls a = Some 0 \<and> avg_dls a = None"
    by blast
  show ?thesis using first second third fourth by blast
qed

text \<open>
  The empty sequence yields no analysis but the HTTP error. A series that holds a NaN has
  no maximum in the usual sense: the series \<open>[NaN, 0]\<close> gives \<open>max_dls = NaN\<close>, the series
  \<open>[0, NaN]\<close> gives \<open>max_dls = 0\<close> and \<open>avg_dls = NaN\<close>.
\<close>

theorem dls_statistics_counterexample:
  "analyze_trajectory [] = Inl (HTTPException 500) \<and>
   map_sum id max_dls
     (analyze_trajectory
        [\<lparr>md = 0, tvd = 0, inc = 90, azi = 0, north = None, east = None\<rparr>,
         \<lparr>md = 100, tvd = 0, inc = 90, azi = 180, north = None, east = None\<rparr>,
         \<lparr>md = 200, tvd = 0, inc = 90, azi = 180, north = None, east = None\<rparr>]) = Inr None \<and>
   map_sum id max_dls
     (analyze_trajectory
        [\<lparr>md = 0, tvd = 0, inc = 90, azi = 0, north = None, east = None\<rparr>,
         \<lparr>md = 100, tvd = 0, inc = 90, azi = 0, north = None, east = None\<rparr>,
         \<lparr>md = 200, tvd = 0, inc = 90, azi = 180, north = None, east = None\<rparr>]) = Inr (Some 0) \<and>
   map_sum id avg_dls
     (analyze_trajectory
        [\<lparr>md = 0, tvd = 0, inc = 90, azi = 0, north = None, east = None\<rparr>,
         \<lparr>md = 100, tvd = 0, inc = 90, azi = 0, north = None, east = None\<rparr>,
         \<lparr>md = 200, tvd = 0, inc = 90, azi = 180, north = None, east = None\<rparr>]) = Inr None"
  by (simp add: analyze_trajectory_def series_nan_first series_nan_last np_mean_def py_gt_def
           del: dls_values.simps)

subsection \<open>The azimuth difference\<close>

text \<open>
  Claim C6 (amended). The azimuth difference used for the dogleg is \<open>azi[i] - azi[i-1]\<close>,
  less 360 when it is above 180 and plus 360 when it is below \<open>-180\<close>. For azimuths in
  \<open>[0, 360)\<close> the result lies in the closed interval \<open>[-180, 180]\<close>: a difference of
  exactly \<open>-180\<close> is left as it is. Azimuths 350 then 10 give 20.
\<close>

theorem delta_azi_wrap:
  "delta_azi prev cur =
     (if 180 < azi cur - azi prev then azi cur - azi prev - 360
      else if azi cur - azi prev < - 180 then azi cur - azi prev + 360
      else azi cur - azi prev) \<and>
   (0 \<le> azi prev \<and> azi prev < 360 \<and> 0 \<le> azi cur \<and> azi cur < 360 \<longrightarrow>
      - 180 \<le> delta_azi prev cur \<and> delta_azi prev cur \<le> 180) \<and>
   (azi prev = 350 \<and> azi cur = 10 \<longrightarrow> delta_azi prev cur = 20)"
  by (auto simp: delta_azi_def wrap_azi_def Let_def)

theorem delta_azi_wrap_witness:
  "delta_azi \<lparr>md = 0, tvd = 0, inc = 0, azi = 350, north = None, east = None\<rparr>
             \<lparr>md = 100, tvd = 99, inc = 5, azi = 10, north = None, east = None\<rparr> = 20"
  using delta_azi_wrap
          [of "\<lparr>md = 0, tvd = 0, inc = 0, azi = 350, north = None, east = None\<rparr>"
              "\<lparr>md = 100, tvd = 99, inc = 5, azi = 10, north = None, east = None\<rparr>"]
  by simp

text \<open>Azimuths 180 then 0 give \<open>-180\<close>, outside the half-open interval \<open>(-180, 180]\<close>.\<close>

theorem delta_azi_counterexample:
  "delta_azi \<lparr>md = 0, tvd = 0, inc = 0, azi = 180, north = None, east = None\<rparr>
             \<lparr>md = 100, tvd = 99, inc = 5, azi = 0, north = None, east = None\<rparr>
     \<notin> {- 180 <.. 180}"
  by (simp add: delta_azi_def wrap_azi_def)

subsection \<open>The argument of the arc cosine\<close>

text \<open>
  Claim C2 (amended). The argument reaches \<open>np.arccos\<close> as computed, without a clamp.
  With equal inclinations and a zero azimuth difference the argument is exactly 1 and the
  dogleg angle exactly 0; whenever the argument lies in \<open>[-1, 1]\<close> the angle is a number
  between 0 and 180; an argument above 1 gives NaN.
\<close>

theorem dogleg_unclamped:
  "(inc cur = inc prev \<and> delta_azi prev cur = 0 \<longrightarrow>
      dogleg_arg prev cur = 1 \<and> dogleg_deg prev cur = Some 0) \<and>
   (- 1 \<le> dogleg_arg prev cur \<and> dogleg_arg prev cur \<le> 1 \<longrightarrow>
      (\<exists>a. dogleg_deg prev cur = Some a \<and> 0 \<le> a \<and> a \<le> 180)) \<and>
   (1 < dogleg_arg prev cur \<longrightarrow> dogleg_deg prev cur = None)"
proof -
  have same: "dogleg_arg prev cur = 1 \<and> dogleg_deg prev cur = Some 0"
    if "inc cur = inc prev" "delta_azi prev cur = 0"
  proof -
    have "dogleg_arg prev cur = 1" using that by (simp add: dogleg_arg_def np_radians_def)
    then show ?thesis by (simp add: dogleg_deg_def np_arccos_def)
  qed
  have inside: "\<exists>a. dogleg_deg prev cur = Some a \<and> 0 \<le> a \<and> a \<le> 180"
    if lo: "- 1 \<le> dogleg_arg prev cur" and hi: "dogleg_arg prev cur \<le> 1"
  proof -
    have "0 \<le> arccos (dogleg_arg prev cur)" using lo hi by (rule arccos_lbound)
    moreover have "arccos (dogleg_arg prev cur) \<le> pi" using lo hi by (rule arccos_ubound)
    ultimately have "0 \<le> arccos (dogleg_arg prev cur) * 180 / pi \<and>
                     arccos (dogleg_arg prev cur) * 180 / pi \<le> 180"
      using pi_gt_zero by (simp add: field_simps)
    then show ?thesis using lo hi by (simp add: dogleg_deg_def np_arccos_def)
  qed
  have above: "dogleg_deg prev cur = None" if "1 < dogleg_arg prev cur"
    using that by (simp add: dogleg_deg_def np_arccos_def)
  show ?thesis using same inside above by blast
qed

theorem dogleg_unclamped_witness:
  "dogleg_deg \<lparr>md = 0, tvd = 0, inc = 5, azi = 10, north = None, east = None\<rparr>
              \<lparr>md = 100, tvd = 99, inc = 5, azi = 10, north = None, east = None\<rparr> = Some 0 \<and>
   dogleg_deg \<lparr>md = 0, tvd = 0, inc = 90, azi = 0, north = None, east = None\<rparr>
              \<lparr>md = 100, tvd = 0, inc = 90, azi = 180, north = None, east = None\<rparr> = None"
proof -
  let ?p = "\<lparr>md = 0, tvd = 0, inc = 5, azi = 10, north = None, east = None\<rparr>"
  let ?c = "\<lparr>md = 100, tvd = 99, inc = 5, azi = 10, north = None, east = None\<rparr>"
  let ?x = "\<lparr>md = 0, tvd = 0, inc = 90, azi = 0, north = None, east = None\<rparr>"
  let ?y = "\<lparr>md = 100, tvd = 0, inc = 90, azi = 180, north = None, east = None\<rparr>"
  have h1: "inc ?c = inc ?p \<and> delta_azi ?p ?c = 0" by (simp add: delta_azi_def wrap_azi_def)
  have h2: "1 < dogleg_arg ?x ?y" by (simp add: arg_3)
  have "dogleg_deg ?p ?c = Some 0" using dogleg_unclamped [of ?c ?p] h1 by blast
  moreover have "dogleg_deg ?x ?y = None" using dogleg_unclamped [of ?y ?x] h2 by blast
  ultimately show ?thesis by simp
qed

text \<open>
  Two points with inclination 90 and azimuths 0 and 180: the argument is 3, the angle is
  NaN, and so is the \<open>max_dls\<close> the handler returns.
\<close>

theorem dogleg_nan_counterexample:
  "1 < dogleg_arg \<lparr>md = 0, tvd = 0, inc = 90, azi = 0, north = None, east = None\<rparr>
                  \<lparr>md = 100, tvd = 0, inc = 90, azi = 180, north = None, east = None\<rparr> \<and>
   dogleg_deg \<lparr>md = 0, tvd = 0, inc = 90, azi = 0, north = None, east = None\<rparr>
              \<lparr>md = 100, tvd = 0, inc = 90, azi = 180, north = None, east = None\<rparr> = None \<and>
   map_sum id max_dls
     (analyze_trajectory
        [\<lparr>md = 0, tvd = 0, inc = 90, azi = 0, north = None, east = None\<rparr>,
         \<lparr>md = 100, tvd = 0, inc = 90, azi = 180, north = None, east = None\<rparr>]) = Inr None"
  by (simp add: arg_3 analyze_trajectory_def dls_per_100ft_def dogleg_deg_def np_arccos_def)

subsection \<open>Aggregate statistics\<close>

text \<open>
  Claim C1 (amended). For every non-empty sequence the handler returns
  \<open>total_displacement = sqrt (N\<^sup>2 + E\<^sup>2)\<close> where \<open>N\<close> is the largest \<open>north\<close> and \<open>E\<close>
  the largest \<open>east\<close> over all points (column-wise maxima, an absent offset counting
  as 0).
\<close>

theorem total_displacement_column_maxima:
  "ps \<noteq> [] \<Longrightarrow>
   \<exists>a. analyze_trajectory ps = Inr a \<and>
       total_displacement a =
         sqrt ((Max ((\<lambda>p. or_0 (north p)) ` set ps))\<^sup>2 + (Max ((\<lambda>p. or_0 (east p)) ` set ps))\<^sup>2)"
  by (simp add: analyze_trajectory_def Let_def col_max_Max)

theorem total_displacement_column_maxima_witness:
  "\<exists>a. analyze_trajectory
         [\<lparr>md = 0, tvd = 0, inc = 0, azi = 0, north = Some 3, east = Some 0\<rparr>,
          \<lparr>md = 100, tvd = 90, inc = 10, azi = 0, north = Some 0, east = Some 4\<rparr>] = Inr a \<and>
       total_displacement a = 5"
proof -
  let ?ps = "[\<lparr>md = 0, tvd = 0, inc = 0, azi = 0, north = Some 3, east = Some 0\<rparr>,
          \<lparr>md = 100, tvd = 90, inc = 10, azi = 0, north = Some 0, east = Some (4::real)\<rparr>]"
  have h: "?ps \<noteq> []" by simp
  have s: "sqrt 25 = 5" by (rule real_sqrt_unique) simp_all
  show ?thesis using total_displacement_column_maxima [OF h] s by (simp add: or_0_def)
qed

text \<open>
  With offsets \<open>(3, 0)\<close> at \<open>md = 0\<close> and \<open>(0, 4)\<close> at \<open>md = 100\<close> the handler returns
  5, while the row with the largest \<open>md\<close> has norm 4.
\<close>

theorem total_displacement_counterexample:
  "map_sum id total_displacement
     (analyze_trajectory
        [\<lparr>md = 0, tvd = 0, inc = 0, azi = 0, north = Some 3, east = Some 0\<rparr>,
         \<lparr>md = 100, tvd = 90, inc = 10, azi = 0, north = Some 0, east = Some 4\<rparr>]) = Inr 5 \<and>
   spec_total_displacement
        [\<lparr>md = 0, tvd = 0, inc = 0, azi = 0, north = Some 3, east = Some 0\<rparr>,
         \<lparr>md = 100, tvd = 90, inc = 10, azi = 0, north = Some 0, east = Some 4\<rparr>] = 4"
proof -
  have s: "sqrt 25 = 5" by (rule real_sqrt_unique) simp_all
  show ?thesis
    using s by (simp add: analyze_trajectory_def spec_total_displacement_def max_md_row_def or_0_def)
qed

text \<open>
  Claim C3 (amended). For every non-empty sequence \<open>closure_azimuth\<close> is
  \<open>degrees (arctan2 (east, north))\<close> of the last element as given, not normalized: it lies
  in \<open>[-180, 180]\<close>, it is at most 0 when the last \<open>east\<close> is negative and at least 0
  otherwise.
\<close>

theorem closure_azimuth_unnormalized:
  "ps \<noteq> [] \<Longrightarrow>
   \<exists>a. analyze_trajectory ps = Inr a \<and>
       closure_azimuth a = np_degrees (np_arctan2 (or_0 (east (last ps))) (or_0 (north (last ps)))) \<and>
       - 180 \<le> closure_azimuth a \<and> closure_azimuth a \<le> 180 \<and>
       (or_0 (east (last ps)) < 0 \<longrightarrow> closure_azimuth a \<le> 0) \<and>
       (0 \<le> or_0 (east (last ps)) \<longrightarrow> 0 \<le> closure_azimuth a)"
proof -
  assume ne: "ps \<noteq> []"
  let ?e = "or_0 (east (last ps))"
  let ?t = "np_arctan2 ?e (or_0 (north (last ps)))"
  have r: "- pi \<le> ?t \<and> ?t \<le> pi" by (rule np_arctan2_range)
  have s: "(?e < 0 \<longrightarrow> ?t \<le> 0) \<and> (0 \<le> ?e \<longrightarrow> 0 \<le> ?t)" by (rule np_arctan2_sign)
  have b: "- 180 \<le> np_degrees ?t \<and> np_degrees ?t \<le> 180"
    using r pi_gt_zero by (simp add: np_degrees_def field_simps)
  have sg: "(?e < 0 \<longrightarrow> np_degrees ?t \<le> 0) \<and> (0 \<le> ?e \<longrightarrow> 0 \<le> np_degrees ?t)"
    using s pi_gt_zero by (simp add: np_degrees_def field_simps zero_le_mult_iff mult_le_0_iff)
  show ?thesis using ne b sg by (simp add: analyze_trajectory_def Let_def last_map)
qed

theorem closure_azimuth_unnormalized_witness:
  "\<exists>a. analyze_trajectory
         [\<lparr>md = 0, tvd = 0, inc = 0, azi = 0, north = Some 0, east = Some (- 1)\<rparr>] = Inr a \<and>
       closure_azimuth a = - 90 \<and> closure_azimuth a \<le> 0"
proof -
  let ?ps = "[\<lparr>md = 0, tvd = 0, inc = 0, azi = 0, north = Some 0, east = Some (- 1 :: real)\<rparr>]"
  have h: "?ps \<noteq> []" by simp
  have e: "or_0 (east (last ?ps)) < 0" by (simp add: or_0_def)
  from closure_azimuth_unnormalized [OF h] obtain a where
    a: "analyze_trajectory ?ps = Inr a"
    and v: "closure_azimuth a =
              np_degrees (np_arctan2 (or_0 (east (last ?ps))) (or_0 (north (last ?ps))))"
    and n: "or_0 (east (last ?ps)) < 0 \<longrightarrow> closure_azimuth a \<le> 0"
    by blast
  from v have "closure_azimuth a = - 90"
    by (simp add: or_0_def np_arctan2_def np_degrees_def)
  moreover from n e have "closure_azimuth a \<le> 0" by blast
  ultimately show ?thesis using a by blast
qed

text \<open>A last point due west of the origin has \<open>closure_azimuth = -90\<close>.\<close>

theorem closure_azimuth_counterexample:
  "map_sum id closure_azimuth
     (analyze_trajectory
        [\<lparr>md = 0, tvd = 0, inc = 0, azi = 0, north = Some 0, east = Some (- 1)\<rparr>]) = Inr (- 90)"
  by (simp add: analyze_trajectory_def or_0_def np_arctan2_def np_degrees_def)

text \<open>
  Claim C4 (amended). For a single point the handler completes with
  \<open>max_dls = avg_dls = 0\<close>, with \<open>max_azimuth\<close> the point's own azimuth and with
  \<open>closure_azimuth = degrees (arctan2 (east, north))\<close> of that point.
\<close>

theorem single_point_statistics:
  "\<exists>a. analyze_trajectory [p] = Inr a \<and>
       max_dls a = Some 0 \<and> avg_dls a = Some 0 \<and>
       max_azimuth a = azi p \<and>
       closure_azimuth a = np_degrees (np_arctan2 (or_0 (east p)) (or_0 (north p)))"
  by (simp add: analyze_trajectory_def)

text \<open>
  One point with azimuth 45 lying due east: \<open>max_azimuth = 45\<close>, \<open>closure_azimuth = 90\<close>.
  The empty sequence yields no analysis but the HTTP error.
\<close>

theorem single_point_counterexample:
  "map_sum id max_azimuth
     (analyze_trajectory
        [\<lparr>md = 0, tvd = 0, inc = 0, azi = 45, north = Some 0, east = Some 1\<rparr>]) = Inr 45 \<and>
   map_sum id closure_azimuth
     (analyze_trajectory
        [\<lparr>md = 0, tvd = 0, inc = 0, azi = 45, north = Some 0, east = Some 1\<rparr>]) = Inr 90 \<and>
   analyze_trajectory [] = Inl (HTTPException 500)"
  by (simp add: analyze_trajectory_def or_0_def np_arctan2_def np_degrees_def)

text \<open>
  Claim C10. For every non-empty sequence and every permutation of it, the handler returns
  the same \<open>total_length\<close>, \<open>total_displacement\<close>, \<open>max_inclination\<close>, \<open>max_azimuth\<close>,
  \<open>vertical_section\<close> and \<open>point_count\<close> on both.
\<close>

theorem order_independent_statistics:
  "ps \<noteq> [] \<Longrightarrow> mset qs = mset ps \<Longrightarrow>
   \<exists>a b. analyze_trajectory ps = Inr a \<and> analyze_trajectory qs = Inr b \<and>
         total_length b = total_length a \<and>
         total_displacement b = total_displacement a \<and>
         max_inclination b = max_inclination a \<and>
         max_azimuth b = max_azimuth a \<and>
         vertical_section b = vertical_section a \<and>
         point_count b = point_count a"
proof -
  assume ne: "ps \<noteq> []" and perm: "mset qs = mset ps"
  have s: "set qs = set ps" using perm by (rule mset_eq_setD)
  have l: "length qs = length ps" using perm by (rule mset_eq_length)
  have qne: "qs \<noteq> []" using ne l by auto
  show ?thesis
    using ne qne s l by (simp add: analyze_trajectory_def Let_def col_max_Max)
qed

theorem order_independent_statistics_witness:
  "\<exists>a b. analyze_trajectory
           [\<lparr>md = 0, tvd = 0, inc = 0, azi = 0, north = Some 3, east = Some 0\<rparr>,
            \<lparr>md = 100, tvd = 90, inc = 10, azi = 20, north = Some 0, east = Some 4\<rparr>] = Inr a \<and>
         analyze_trajectory
           [\<lparr>md = 100, tvd = 90, inc = 10, azi = 20, north = Some 0, east = Some 4\<rparr>,
            \<lparr>md = 0, tvd = 0, inc = 0, azi = 0, north = Some 3, east = Some 0\<rparr>] = Inr b \<and>
         total_length b = total_length a \<and>
         total_displacement b = total_displacement a \<and>
         max_inclination b = max_inclination a \<and>
         max_azimuth b = max_azimuth a \<and>
         vertical_section b = vertical_section a \<and>
         point_count b = point_count a \<and>
         closure_distance a = 4 \<and> closure_distance b = 3"
proof -
  let ?p = "\<lparr>md = 0, tvd = 0, inc = 0, azi = 0, north = Some 3, east = Some (0::real)\<rparr>"
  let ?q = "\<lparr>md = 100, tvd = 90, inc = 10, azi = 20, north = Some 0, east = Some (4::real)\<rparr>"
  have h1: "[?p, ?q] \<noteq> []" by simp
  have h2: "mset [?q, ?p] = mset [?p, ?q]" by simp
  from order_independent_statistics [OF h1 h2] obtain a b where
    ab: "analyze_trajectory [?p, ?q] = Inr a" "analyze_trajectory [?q, ?p] = Inr b"
    and eqs: "total_length b = total_length a \<and>
         total_displacement b = total_displacement a \<and>
         max_inclination b = max_inclination a \<and>
         max_azimuth b = max_azimuth a \<and>
         vertical_section b = vertical_section a \<and>
         point_count b = point_count a"
    by blast
  have "closure_distance a = 4" "closure_distance b = 3"
    using ab by (auto simp: analyze_trajectory_def or_0_def)
  then show ?thesis using ab eqs by blast
qed

end
